theory Spec2Isabelle
  imports Main "HOL-Library.AList"
begin

section \<open>The PEP 517 build system of the GNOME Builder plugin\<close>

text \<open>
  A shallow embedding of \<^verbatim>\<open>python_517_build_plugin.py\<close>: the class
  \<^verbatim>\<open>Python517BuildSystem\<close> with its manifest callback
  \<^verbatim>\<open>_on_load_pyproject_toml\<close>, the artifact register \<^verbatim>\<open>add_build\<close> and
  \<^verbatim>\<open>get_builds_installable\<close>. Mutation of \<^verbatim>\<open>self\<close> is explicit state passing,
  every Python exception is the left summand of a sum type.
\<close>

subsection \<open>Data\<close>

text \<open>
  \<^verbatim>\<open>BuildType\<close> is imported from \<^verbatim>\<open>backends\<close>; the plugin names five members.
\<close>

datatype BuildType = TREE | EGG | WHEEL | SDIST | FILE

text \<open>
  A build backend object, seen through the four methods the plugin calls on it.
\<close>

record backend =
  get_build_types :: "BuildType list"
  get_builddir_name :: string
  get_wheel_cmd :: "string list"
  has_isolation :: bool

text \<open>
  The value \<^verbatim>\<open>tomli.loads\<close> returns: a dict from keys to strings, integers, booleans,
  arrays, tables and the remaining scalars (floats, dates and times, kept as their text).
  A dict is an association list in insertion order.
\<close>

datatype toml =
    TString string
  | TInteger int
  | TBoolean bool
  | TOther string
  | TArray "toml list"
  | TTable "(string \<times> toml) list"

text \<open>The members of \<^verbatim>\<open>Gio.IOErrorEnum\<close> that occur below.\<close>

datatype IOErrorEnum = FAILED | NOT_FOUND | PERMISSION_DENIED | NOT_SUPPORTED | CANCELLED

datatype glib_error = GLibError (message: string) (domain: string) (code: IOErrorEnum)

datatype py_exception =
    GLib_Error glib_error
  | TOMLDecodeError string
  | UnicodeDecodeError
  | AttributeError
  | KeyError string
  | TypeError
  | InvalidWheelFilename string
  | InvalidSdistFilename string

text \<open>
  How the \<^verbatim>\<open>Gio.Task\<close> of an asynchronous operation is completed: with a \<^verbatim>\<open>GError\<close>
  or with a boolean.
\<close>

datatype task_result = Return_error glib_error | Return_boolean bool

text \<open>
  The properties of \<^verbatim>\<open>Python517BuildSystem\<close> that the three operations read or
  write; \<open>workdir\<close> is \<^verbatim>\<open>self.get_context().ref_workdir().get_path()\<close>.
\<close>

record Python517BuildSystem =
  workdir :: string
  backends :: "(string \<times> backend) list"
  build_backend :: "backend option"
  builds :: "(string \<times> BuildType) list"

subsection \<open>Loading the manifest\<close>

definition io_error_quark :: string where
  "io_error_quark = ''g-io-error-quark''"

text \<open>The error of the branch commented \<^verbatim>\<open># Not a PEP 517 python project\<close>.\<close>

definition NotPep517Project :: glib_error where
  "NotPep517Project =
     GLibError ''Not a valid python PEP-517 build system'' io_error_quark NOT_SUPPORTED"

text \<open>
  \<^verbatim>\<open>task.return_error(err)\<close>. The parameter of \<^verbatim>\<open>Gio.Task.return_error\<close> is a
  \<^verbatim>\<open>GError\<close>: the binding converts a \<^verbatim>\<open>GLib.Error\<close> and completes the task with it, and
  refuses any other Python object with \<^verbatim>\<open>TypeError\<close>, which leaves the task uncompleted.
\<close>

definition return_error :: "py_exception \<Rightarrow> py_exception + task_result" where
  "return_error err =
     (case err of GLib_Error e \<Rightarrow> Inr (Return_error e) | _ \<Rightarrow> Inl TypeError)"

text \<open>
  The test of the \<^verbatim>\<open>if\<close> in \<^verbatim>\<open>_on_load_pyproject_toml\<close>; each \<^verbatim>\<open>or\<close> is
  reached only when the disjuncts before it are false, so every subscript finds its key.
\<close>

definition not_pep517 :: "(string \<times> toml) list \<Rightarrow> bool" where
  "not_pep517 py_project =
     (case map_of py_project ''build-system'' of
        None \<Rightarrow> True
      | Some build_system \<Rightarrow>
          (case build_system of
             TTable t \<Rightarrow>
               (case map_of t ''build-backend'' of
                  None \<Rightarrow> True
                | Some b \<Rightarrow> (case b of TString _ \<Rightarrow> False | _ \<Rightarrow> True))
           | _ \<Rightarrow> True))"

text \<open>
  \<^verbatim>\<open>py_project["build-system"]["build-backend"]\<close>, read after the test above has
  passed. \<open>None\<close> stands for the failed subscript, which that test excludes
  (lemma \<open>backend_key_present\<close>).
\<close>

definition backend_key :: "(string \<times> toml) list \<Rightarrow> string option" where
  "backend_key py_project =
     (case map_of py_project ''build-system'' of
        Some (TTable t) \<Rightarrow>
          (case map_of t ''build-backend'' of Some (TString s) \<Rightarrow> Some s | _ \<Rightarrow> None)
      | _ \<Rightarrow> None)"

text \<open>
  \<^verbatim>\<open>_on_load_pyproject_toml(self, project_file, result, task)\<close>. The argument
  \<open>result\<close> is what \<^verbatim>\<open>load_contents_finish\<close> yields: the \<^verbatim>\<open>GLib.Error\<close> it raises or
  the bytes read. \<open>decode\<close> is \<^verbatim>\<open>bytes.decode('utf-8')\<close> (\<open>None\<close> when it raises
  \<^verbatim>\<open>UnicodeDecodeError\<close>, which the callback does not catch) and \<open>loads\<close> is
  \<^verbatim>\<open>tomli.loads\<close> (\<open>Inl\<close> the message of its \<^verbatim>\<open>TOMLDecodeError\<close>); both are library
  code and are parameters. The value is the exception that leaves the callback, or the
  build system afterwards with the completion of the task. In each \<^verbatim>\<open>except\<close> clause
  the next statement after \<^verbatim>\<open>task.return_error(err)\<close> is \<^verbatim>\<open>return\<close>; an exception
  of that call leaves the callback.
\<close>

definition on_load_pyproject_toml ::
  "(string \<Rightarrow> string option) \<Rightarrow> (string \<Rightarrow> string + (string \<times> toml) list) \<Rightarrow>
   Python517BuildSystem \<Rightarrow> glib_error + string \<Rightarrow>
   py_exception + (Python517BuildSystem \<times> task_result)" where
  "on_load_pyproject_toml decode loads self result =
     (case result of
        Inl err \<Rightarrow>
          (case return_error (GLib_Error err) of Inl x \<Rightarrow> Inl x | Inr r \<Rightarrow> Inr (self, r))
      | Inr contents \<Rightarrow>
          (case decode contents of
             None \<Rightarrow> Inl UnicodeDecodeError
           | Some text \<Rightarrow>
               (case loads text of
                  Inl err \<Rightarrow>
                    (case return_error (TOMLDecodeError err) of
                       Inl x \<Rightarrow> Inl x | Inr r \<Rightarrow> Inr (self, r))
                | Inr py_project \<Rightarrow>
                    if not_pep517 py_project
                    then
                      (case return_error (GLib_Error NotPep517Project) of
                         Inl x \<Rightarrow> Inl x | Inr r \<Rightarrow> Inr (self, r))
                    else
                      (case backend_key py_project of
                         None \<Rightarrow> Inl (KeyError ''build-backend'')
                       | Some key \<Rightarrow>
                           (case map_of (backends self) key of
                              None \<Rightarrow> Inr (self, Return_boolean True)
                            | Some b \<Rightarrow>
                                Inr (self\<lparr>build_backend := Some b\<rparr>, Return_boolean True))))))"

subsection \<open>The artifact register\<close>

text \<open>
  The \<^verbatim>\<open>pathlib.Path\<close> handed to \<^verbatim>\<open>add_build\<close>, as far as the method looks at it:
  \<open>name\<close> is its final component and \<open>is_dir\<close> the answer of the file system to
  \<^verbatim>\<open>file.is_dir()\<close> at the time of the call.
\<close>

record Path =
  name :: string
  is_dir :: bool

text \<open>
  \<^verbatim>\<open>PurePath.suffix\<close>: with \<open>i\<close> the index of the last dot of the name, the text
  from that dot on when \<open>0 < i < len(name) - 1\<close>, and the empty string otherwise.
  \<open>ext\<close> is the text after the last dot, so \<open>i = length nm - length ext - 1\<close>.
\<close>

definition suffix :: "string \<Rightarrow> string" where
  "suffix nm =
     (let ext = rev (takeWhile (\<lambda>c. c \<noteq> CHR ''.'') (rev nm))
      in if CHR ''.'' \<in> set nm \<and> length ext + 1 < length nm \<and> ext \<noteq> []
         then CHR ''.'' # ext else [])"

text \<open>
  \<^verbatim>\<open>self.props.builds[key] = kind\<close> on a Python dict: an existing key keeps its place
  and takes the new value, a new key goes to the end. This is \<^const>\<open>AList.update\<close>.
\<close>

definition setitem :: "Python517BuildSystem \<Rightarrow> string \<Rightarrow> BuildType \<Rightarrow> Python517BuildSystem" where
  "setitem self key kind = self\<lparr>builds := AList.update key kind (builds self)\<rparr>"

text \<open>
  \<^verbatim>\<open>add_build(self, file)\<close>. Without a backend every path through the chain reaches a
  call of \<^verbatim>\<open>self.props.build_backend.get_build_types()\<close> (the last \<^verbatim>\<open>elif\<close> at the
  latest) before anything is stored, which raises \<^verbatim>\<open>AttributeError\<close> on \<^verbatim>\<open>None\<close>.
\<close>

definition add_build :: "Python517BuildSystem \<Rightarrow> Path \<Rightarrow> py_exception + Python517BuildSystem" where
  "add_build self file =
     (case build_backend self of
        None \<Rightarrow> Inl AttributeError
      | Some b \<Rightarrow>
          if is_dir file \<and> TREE \<in> set (get_build_types b)
          then Inr (setitem self (name file) TREE)
          else if suffix (name file) = ''.egg'' \<and> EGG \<in> set (get_build_types b)
          then Inr (setitem self (name file) EGG)
          else if suffix (name file) = ''.whl'' \<and> WHEEL \<in> set (get_build_types b)
          then Inr (setitem self (name file) WHEEL)
          else if suffix (name file) \<in> set [''.gz'', ''.tar'', ''.zip'']
                  \<and> SDIST \<in> set (get_build_types b)
          then Inr (setitem self (name file) SDIST)
          else if FILE \<in> set (get_build_types b)
          then Inr (setitem self (name file) FILE)
          else Inr self)"

text \<open>\<^verbatim>\<open>clean_builds(self)\<close>.\<close>

definition clean_builds :: "Python517BuildSystem \<Rightarrow> Python517BuildSystem" where
  "clean_builds self = self\<lparr>builds := []\<rparr>"

subsection \<open>Installable artifacts\<close>

text \<open>
  The \<^verbatim>\<open>if\<close>/\<^verbatim>\<open>elif\<close> chain of \<^verbatim>\<open>get_builds_installable\<close> that sets the local
  \<^verbatim>\<open>installable\<close>, which starts as \<^verbatim>\<open>None\<close>.
\<close>

definition installable_kind :: "(string \<times> BuildType) list \<Rightarrow> BuildType option" where
  "installable_kind bs =
     (if WHEEL \<in> set (map snd bs) then Some WHEEL
      else if SDIST \<in> set (map snd bs) then Some SDIST
      else if TREE \<in> set (map snd bs) then Some TREE
      else None)"

text \<open>
  The \<^verbatim>\<open>for file, kind in self.props.builds.items()\<close> loop, with the locals \<^verbatim>\<open>name\<close>
  and \<^verbatim>\<open>b_inst\<close> threaded through. The arguments \<open>parse_wheel_filename\<close> and
  \<open>parse_sdist_filename\<close> are the functions of \<^verbatim>\<open>packaging.utils\<close>: \<open>Inl\<close> the exception
  they raise, \<open>Inr\<close> the first component of the tuple they return. Nothing in the loop
  catches an exception.
\<close>

fun installable_loop ::
  "(string \<Rightarrow> py_exception + string) \<Rightarrow> (string \<Rightarrow> py_exception + string) \<Rightarrow>
   BuildType option \<Rightarrow> (string \<times> BuildType) list \<Rightarrow> string \<Rightarrow>
   (string \<times> BuildType \<times> string) list \<Rightarrow> py_exception + (string \<times> BuildType \<times> string) list" where
  "installable_loop parse_wheel_filename parse_sdist_filename installable [] nm b_inst = Inr b_inst"
| "installable_loop parse_wheel_filename parse_sdist_filename installable ((file, kind) # items) nm b_inst =
     (if Some kind = installable then
        (if kind = WHEEL then
           (case parse_wheel_filename file of
              Inl e \<Rightarrow> Inl e
            | Inr nm' \<Rightarrow>
                installable_loop parse_wheel_filename parse_sdist_filename installable items nm'
                  (b_inst @ [(file, kind, nm')]))
         else if kind = SDIST then
           (case parse_sdist_filename file of
              Inl e \<Rightarrow> Inl e
            | Inr nm' \<Rightarrow>
                installable_loop parse_wheel_filename parse_sdist_filename installable items nm'
                  (b_inst @ [(file, kind, nm')]))
         else
           installable_loop parse_wheel_filename parse_sdist_filename installable items nm
             (b_inst @ [(file, kind, nm)]))
      else installable_loop parse_wheel_filename parse_sdist_filename installable items nm b_inst)"

text \<open>\<^verbatim>\<open>get_builds_installable(self)\<close>.\<close>

definition get_builds_installable ::
  "(string \<Rightarrow> py_exception + string) \<Rightarrow> (string \<Rightarrow> py_exception + string) \<Rightarrow>
   Python517BuildSystem \<Rightarrow> py_exception + (string \<times> BuildType \<times> string) list" where
  "get_builds_installable parse_wheel_filename parse_sdist_filename self =
     installable_loop parse_wheel_filename parse_sdist_filename
       (installable_kind (builds self)) (builds self) ''Unknown''
       [(workdir self, TREE, ''sources'')]"

subsection \<open>The register as the specification words it\<close>

text \<open>
  The classification the specification gives for \<^verbatim>\<open>register_artifact\<close>: a kind is chosen
  from the path alone, and the backend is asked about that kind afterwards. A name has
  the suffix \<open>s\<close> when it ends in \<open>s\<close>.
\<close>

definition ends_with :: "string \<Rightarrow> string \<Rightarrow> bool" where
  "ends_with nm s = (length s \<le> length nm \<and> drop (length nm - length s) nm = s)"

definition spec_classify :: "Path \<Rightarrow> BuildType" where
  "spec_classify file =
     (if is_dir file then TREE
      else if ends_with (name file) ''.egg'' then EGG
      else if ends_with (name file) ''.whl'' then WHEEL
      else if ends_with (name file) ''.tar'' \<or> ends_with (name file) ''.tar.gz''
              \<or> ends_with (name file) ''.zip'' then SDIST
      else FILE)"

definition spec_register_artifact :: "backend \<Rightarrow> (string \<times> BuildType) list \<Rightarrow> Path \<Rightarrow> (string \<times> BuildType) list" where
  "spec_register_artifact b registry file =
     (if spec_classify file \<in> set (get_build_types b)
      then AList.update (name file) (spec_classify file) registry
      else registry)"

subsection \<open>The tests of the chain, one by one\<close>

text \<open>
  The first conjunct of each branch of \<^verbatim>\<open>add_build\<close>, by the kind the branch stores, and
  the order of the branches.
\<close>

fun kind_test :: "Path \<Rightarrow> BuildType \<Rightarrow> bool" where
  "kind_test file TREE = is_dir file"
| "kind_test file EGG = (suffix (name file) = ''.egg'')"
| "kind_test file WHEEL = (suffix (name file) = ''.whl'')"
| "kind_test file SDIST = (suffix (name file) \<in> set [''.gz'', ''.tar'', ''.zip''])"
| "kind_test file FILE = True"

definition branch_order :: "BuildType list" where
  "branch_order = [TREE, EGG, WHEEL, SDIST, FILE]"

subsection \<open>Sample inputs\<close>

definition sample_backend :: backend where
  "sample_backend =
     \<lparr>get_build_types = [SDIST, WHEEL], get_builddir_name = ''dist'',
      get_wheel_cmd = [''python'', ''-m'', ''build'', ''--wheel''], has_isolation = True\<rparr>"

definition all_kinds_backend :: backend where
  "all_kinds_backend = sample_backend\<lparr>get_build_types := [TREE, EGG, WHEEL, SDIST, FILE]\<rparr>"

definition sdist_file_backend :: backend where
  "sdist_file_backend = sample_backend\<lparr>get_build_types := [SDIST, FILE]\<rparr>"

definition sample_system :: Python517BuildSystem where
  "sample_system =
     \<lparr>workdir = ''/home/user/mypkg'', backends = [(''setuptools.build_meta'', sample_backend)],
      build_backend = None, builds = []\<rparr>"

text \<open>The error of \<^verbatim>\<open>load_contents_finish\<close> for a file that does not exist.\<close>

definition file_not_found :: glib_error where
  "file_not_found =
     GLibError ''Error opening file /home/user/mypkg/pyproject.toml: No such file or directory''
       io_error_quark NOT_FOUND"

text \<open>
  Stand-ins for the library functions, right on the inputs used below: ASCII bytes
  decode to themselves; the empty document is the empty table, the one-line document
  with an inline table parses to it, and a lone \<^verbatim>\<open>=\<close> is no TOML.
\<close>

definition sample_decode :: "string \<Rightarrow> string option" where
  "sample_decode contents =
     (if list_all (\<lambda>c. of_char c < (128::nat)) contents then Some contents else None)"

definition sample_loads :: "string \<Rightarrow> string + (string \<times> toml) list" where
  "sample_loads text =
     (if text = '''' then Inr []
      else if text = ''build-system = {build-backend = 1}''
      then Inr [(''build-system'', TTable [(''build-backend'', TInteger 1)])]
      else Inl ''Invalid statement (at line 1, column 1)'')"

text \<open>
  Stand-ins for \<^verbatim>\<open>parse_wheel_filename\<close> and \<^verbatim>\<open>parse_sdist_filename\<close>, right on the
  names used below: one well-formed name each, every other name refused.
\<close>

definition sample_parse_wheel_filename :: "string \<Rightarrow> py_exception + string" where
  "sample_parse_wheel_filename file =
     (if file = ''mypkg-1.0-py3-none-any.whl'' then Inr ''mypkg''
      else Inl (InvalidWheelFilename file))"

definition sample_parse_sdist_filename :: "string \<Rightarrow> py_exception + string" where
  "sample_parse_sdist_filename file =
     (if file = ''mypkg-1.0.tar.gz'' then Inr ''mypkg''
      else Inl (InvalidSdistFilename file))"

section \<open>Properties\<close>

subsection \<open>Manifest resolution\<close>

lemma backend_key_present: "\<not> not_pep517 d \<Longrightarrow> \<exists>k. backend_key d = Some k"
proof -
  assume a: "\<not> not_pep517 d"
  then obtain v where v: "map_of d ''build-system'' = Some v"
    by (cases "map_of d ''build-system''") (simp_all add: not_pep517_def)
  with a obtain t where t: "v = TTable t"
    by (cases v) (simp_all add: not_pep517_def)
  with a v obtain b where b: "map_of t ''build-backend'' = Some b"
    by (cases "map_of t ''build-backend''") (simp_all add: not_pep517_def)
  with a v t obtain s where "b = TString s"
    by (cases b) (simp_all add: not_pep517_def)
  with v t b show ?thesis by (simp add: backend_key_def)
qed

lemma not_pep517_iff:
  "not_pep517 d \<longleftrightarrow>
     \<not> (\<exists>t s. map_of d ''build-system'' = Some (TTable t) \<and>
              map_of t ''build-backend'' = Some (TString s))"
proof (cases "map_of d ''build-system''")
  case None
  then show ?thesis by (simp add: not_pep517_def)
next
  case (Some v)
  show ?thesis
  proof (cases v)
    case (TTable t)
    show ?thesis
    proof (cases "map_of t ''build-backend''")
      case None
      with Some TTable show ?thesis by (simp add: not_pep517_def)
    next
      case inner: (Some b)
      with Some TTable show ?thesis
        by (cases b) (simp_all add: not_pep517_def)
    qed
  qed (use Some in \<open>simp_all add: not_pep517_def\<close>)
qed

lemma on_load_never_key_error:
  "on_load_pyproject_toml decode loads self result \<noteq> Inl (KeyError k)"
proof (cases result)
  case (Inl err)
  then show ?thesis by (simp add: on_load_pyproject_toml_def return_error_def)
next
  case (Inr contents)
  show ?thesis
  proof (cases "decode contents")
    case None
    with Inr show ?thesis by (simp add: on_load_pyproject_toml_def return_error_def)
  next
    case (Some str)
    show ?thesis
    proof (cases "loads str")
      case (Inl msg)
      with Inr Some show ?thesis by (simp add: on_load_pyproject_toml_def return_error_def)
    next
      case py: (Inr py_project)
      show ?thesis
      proof (cases "not_pep517 py_project")
        case True
        with Inr Some py show ?thesis by (simp add: on_load_pyproject_toml_def return_error_def)
      next
        case False
        from backend_key_present [OF this] obtain key where "backend_key py_project = Some key" ..
        with Inr Some py False show ?thesis
          by (simp add: on_load_pyproject_toml_def return_error_def split: option.splits)
      qed
    qed
  qed
qed

text \<open>A manifest naming a registered backend resolves to it.\<close>

lemma resolution_example:
  "on_load_pyproject_toml decode (\<lambda>_. Inr [(''build-system'',
       TTable [(''build-backend'', TString ''setuptools.build_meta'')])]) sample_system (Inr contents) =
   (case decode contents of None \<Rightarrow> Inl UnicodeDecodeError
    | Some _ \<Rightarrow> Inr (sample_system\<lparr>build_backend := Some sample_backend\<rparr>, Return_boolean True))"
  by (simp add: on_load_pyproject_toml_def not_pep517_def backend_key_def sample_system_def
      split: option.splits)

text \<open>
  C1, amended. A manifest whose read fails (the file is absent, say) makes resolution
  fail with the \<^verbatim>\<open>GLib.Error\<close> of the read, passed on unchanged. A manifest that parses
  but has no \<^verbatim>\<open>build-system\<close> table with a string \<^verbatim>\<open>build-backend\<close> makes it fail with
  the error \<open>NotPep517Project\<close>. In both cases the build system, and with it
  \<open>build_backend\<close>, is left as it was.
\<close>

theorem unusable_manifest_fails:
  "(result = Inl err \<longrightarrow>
      on_load_pyproject_toml decode loads self result = Inr (self, Return_error err)) \<and>
   (result = Inr contents \<and> decode contents = Some str \<and> loads str = Inr py_project \<and>
    \<not> (\<exists>t s. map_of py_project ''build-system'' = Some (TTable t) \<and>
              map_of t ''build-backend'' = Some (TString s)) \<longrightarrow>
      on_load_pyproject_toml decode loads self result =
        Inr (self, Return_error NotPep517Project))"
  using not_pep517_iff [of py_project]
  by (simp add: on_load_pyproject_toml_def return_error_def)

text \<open>
  Both cases on the sample system, whose \<open>build_backend\<close> is unset: a missing file, and
  the empty document.
\<close>

theorem unusable_manifest_fails_witness:
  "on_load_pyproject_toml sample_decode sample_loads sample_system (Inl file_not_found) =
     Inr (sample_system, Return_error file_not_found) \<and>
   sample_decode '''' = Some '''' \<and> sample_loads '''' = Inr [] \<and>
   on_load_pyproject_toml sample_decode sample_loads sample_system (Inr '''') =
     Inr (sample_system, Return_error NotPep517Project) \<and>
   build_backend sample_system = None"
proof -
  have d: "sample_decode '''' = Some ''''"
    by (simp add: sample_decode_def)
  have l: "sample_loads '''' = Inr []"
    by (simp add: sample_loads_def)
  note a = unusable_manifest_fails [where result = "Inl file_not_found" and err = file_not_found
      and decode = sample_decode and loads = sample_loads and self = sample_system]
  note c = unusable_manifest_fails [where result = "Inr ''''" and contents = "''''"
      and str = "''''" and py_project = "[]"
      and decode = sample_decode and loads = sample_loads and self = sample_system]
  from a c d l show ?thesis
    by (simp add: sample_system_def)
qed

text \<open>
  C1 as stated asks for \<open>NotPep517Project\<close> also when the file is absent. The task then
  gets the error of the read, which is another error.
\<close>

theorem absent_manifest_counterexample:
  "on_load_pyproject_toml sample_decode sample_loads sample_system (Inl file_not_found) =
     Inr (sample_system, Return_error file_not_found) \<and>
   file_not_found \<noteq> NotPep517Project"
  by (simp add: on_load_pyproject_toml_def return_error_def file_not_found_def
      NotPep517Project_def)

subsection \<open>Registering an artifact\<close>

lemma builds_setitem:
  "map_of (builds (setitem self key kind)) = (map_of (builds self))(key \<mapsto> kind)"
  "map fst (builds (setitem self key kind)) =
     (if key \<in> set (map fst (builds self)) then map fst (builds self)
      else map fst (builds self) @ [key])"
  by (simp_all add: setitem_def update_conv' update_keys)

text \<open>
  What \<^verbatim>\<open>add_build\<close> keeps: the keys of the register stay distinct, as those of a dict
  are, and every registered kind is one the backend supports.
\<close>

lemma add_build_no_backend:
  "build_backend self = None \<Longrightarrow> add_build self path = Inl AttributeError"
  by (simp add: add_build_def)

lemma add_build_distinct:
  assumes "add_build self path = Inr self'" and "distinct (map fst (builds self))"
  shows "distinct (map fst (builds self'))"
  using assms
  by (cases "build_backend self") (auto simp: add_build_def setitem_def distinct_update split: if_splits)

lemma add_build_supported:
  assumes "add_build self path = Inr self'" and "build_backend self = Some b"
    and "\<forall>k \<in> set (map snd (builds self)). k \<in> set (get_build_types b)"
  shows "\<forall>k \<in> set (map snd (builds self')). k \<in> set (get_build_types b)"
proof -
  have "set (map snd (AList.update key kind al)) \<subseteq> insert kind (set (map snd al))" for key kind
    and al :: "(string \<times> BuildType) list"
    by (induction al) auto
  then have u: "k \<in> set (map snd (AList.update key kind al)) \<Longrightarrow> k = kind \<or> k \<in> set (map snd al)"
    for k key kind and al :: "(string \<times> BuildType) list"
    by blast
  from assms(1,2) consider "self' = self"
    | kind where "kind \<in> set (get_build_types b)" "self' = setitem self (name path) kind"
    by (auto simp: add_build_def split: if_splits)
  then show ?thesis
  proof cases
    case 1
    with assms(3) show ?thesis by simp
  next
    case 2
    show ?thesis
    proof
      fix k assume "k \<in> set (map snd (builds self'))"
      with 2 have "k = kind \<or> k \<in> set (map snd (builds self))"
        using u [of k "name path" kind "builds self"] by (simp add: setitem_def)
      with 2 assms(3) show "k \<in> set (get_build_types b)" by blast
    qed
  qed
qed

lemma clean_builds_idem: "clean_builds (clean_builds self) = clean_builds self"
  and clean_builds_empty: "builds (clean_builds self) = []"
  by (simp_all add: clean_builds_def)

text \<open>
  C2, amended. With a backend resolved, \<^verbatim>\<open>add_build\<close> goes through the kinds in the
  order TREE, EGG, WHEEL, SDIST, FILE and stores the path under the first kind whose test
  holds and which the backend supports, where the tests are: the path is a directory;
  the last suffix is \<^verbatim>\<open>.egg\<close>; it is \<^verbatim>\<open>.whl\<close>; it is one of \<^verbatim>\<open>.gz\<close>, \<^verbatim>\<open>.tar\<close>,
  \<^verbatim>\<open>.zip\<close>; always. When there is no such kind the build system is unchanged. Storing
  maps the base name of the path to the kind and leaves every other entry alone: a name
  already there keeps its place, a new one goes to the end.
\<close>

theorem add_build_first_supported_branch:
  assumes "build_backend self = Some b"
  shows "add_build self path =
     Inr (case find (\<lambda>k. kind_test path k \<and> k \<in> set (get_build_types b)) branch_order of
            None \<Rightarrow> self
          | Some k \<Rightarrow> setitem self (name path) k) \<and>
     map_of (builds (setitem self (name path) k)) = (map_of (builds self))(name path \<mapsto> k) \<and>
     map fst (builds (setitem self (name path) k)) =
       (if name path \<in> set (map fst (builds self)) then map fst (builds self)
        else map fst (builds self) @ [name path]) \<and>
     (find (\<lambda>k. kind_test path k \<and> k \<in> set (get_build_types b)) branch_order = Some k \<longrightarrow>
        kind_test path k \<and> k \<in> set (get_build_types b))"
proof -
  have "add_build self path =
     Inr (case find (\<lambda>k. kind_test path k \<and> k \<in> set (get_build_types b)) branch_order of
            None \<Rightarrow> self
          | Some k \<Rightarrow> setitem self (name path) k)"
    using assms by (simp add: add_build_def branch_order_def)
  moreover have "find (\<lambda>k. kind_test path k \<and> k \<in> set (get_build_types b)) branch_order = Some k \<longrightarrow>
        kind_test path k \<and> k \<in> set (get_build_types b)"
    by (auto simp: find_Some_iff)
  ultimately show ?thesis
    by (simp add: builds_setitem)
qed

text \<open>A source archive under a backend that builds source archives and wheels.\<close>

theorem add_build_first_supported_branch_witness:
  "build_backend (sample_system\<lparr>build_backend := Some sample_backend\<rparr>) = Some sample_backend \<and>
   add_build (sample_system\<lparr>build_backend := Some sample_backend\<rparr>)
       \<lparr>name = ''mypkg-1.0.tar.gz'', is_dir = False\<rparr> =
     Inr (setitem (sample_system\<lparr>build_backend := Some sample_backend\<rparr>) ''mypkg-1.0.tar.gz'' SDIST) \<and>
   map_of (builds (setitem (sample_system\<lparr>build_backend := Some sample_backend\<rparr>)
       ''mypkg-1.0.tar.gz'' SDIST)) = [''mypkg-1.0.tar.gz'' \<mapsto> SDIST] \<and>
   find (\<lambda>k. kind_test \<lparr>name = ''mypkg-1.0.tar.gz'', is_dir = False\<rparr> k \<and>
              k \<in> set (get_build_types sample_backend)) branch_order = Some SDIST \<and>
   kind_test \<lparr>name = ''mypkg-1.0.tar.gz'', is_dir = False\<rparr> SDIST \<and>
   SDIST \<in> set (get_build_types sample_backend)"
proof -
  have h: "build_backend (sample_system\<lparr>build_backend := Some sample_backend\<rparr>) = Some sample_backend"
    by simp
  have s: "suffix ''mypkg-1.0.tar.gz'' = ''.gz''"
    by (simp add: suffix_def)
  have e: "builds sample_system = []"
    by (simp add: sample_system_def)
  have t: "get_build_types sample_backend = [SDIST, WHEEL]"
    by (simp add: sample_backend_def)
  show ?thesis
    using add_build_first_supported_branch [OF h,
        where path = "\<lparr>name = ''mypkg-1.0.tar.gz'', is_dir = False\<rparr>" and k = SDIST]
    by (simp add: branch_order_def s e t)
qed

text \<open>
  C2 as stated fails twice. The file \<^verbatim>\<open>notes.gz\<close> has none of the suffixes \<^verbatim>\<open>.tar\<close>,
  \<^verbatim>\<open>.tar.gz\<close>, \<^verbatim>\<open>.zip\<close> and would be a FILE; \<^verbatim>\<open>add_build\<close> stores it as SDIST. The file
  \<^verbatim>\<open>foo.whl\<close> is a WHEEL, which a backend for SDIST and FILE does not support, and
  would be refused; \<^verbatim>\<open>add_build\<close> stores it as FILE.
\<close>

theorem register_artifact_counterexample:
  "add_build (sample_system\<lparr>build_backend := Some all_kinds_backend\<rparr>)
       \<lparr>name = ''notes.gz'', is_dir = False\<rparr> =
     Inr (sample_system\<lparr>build_backend := Some all_kinds_backend, builds := [(''notes.gz'', SDIST)]\<rparr>) \<and>
   spec_register_artifact all_kinds_backend [] \<lparr>name = ''notes.gz'', is_dir = False\<rparr> =
     [(''notes.gz'', FILE)] \<and>
   add_build (sample_system\<lparr>build_backend := Some sdist_file_backend\<rparr>)
       \<lparr>name = ''foo.whl'', is_dir = False\<rparr> =
     Inr (sample_system\<lparr>build_backend := Some sdist_file_backend, builds := [(''foo.whl'', FILE)]\<rparr>) \<and>
   spec_register_artifact sdist_file_backend [] \<lparr>name = ''foo.whl'', is_dir = False\<rparr> = []"
proof -
  have s1: "suffix ''notes.gz'' = ''.gz''" and s2: "suffix ''foo.whl'' = ''.whl''"
    by (simp_all add: suffix_def)
  show ?thesis
    by (simp add: add_build_def setitem_def s1 s2 spec_register_artifact_def spec_classify_def
        ends_with_def all_kinds_backend_def sdist_file_backend_def sample_backend_def
        sample_system_def)
qed

subsection \<open>Installable artifacts: properties\<close>

lemma installable_loop_first_refused:
  assumes "find (\<lambda>(g, k). k = kind \<and> isl (if kind = WHEEL then pw g else ps g)) items = Some (f, k')"
    and "kind = WHEEL \<or> kind = SDIST"
  shows "\<exists>e. (if kind = WHEEL then pw f else ps f) = Inl e \<and>
           installable_loop pw ps (Some kind) items nm acc = Inl e"
  using assms
proof (induction items arbitrary: nm acc)
  case Nil
  then show ?case by simp
next
  case (Cons item items)
  obtain g k where item: "item = (g, k)" by (cases item)
  show ?case
  proof (cases "k = kind \<and> isl (if kind = WHEEL then pw g else ps g)")
    case True
    with Cons.prems(1) item have f: "f = g" by simp
    from True obtain e where e: "(if kind = WHEEL then pw g else ps g) = Inl e"
      by (auto simp: isl_def)
    with True item Cons.prems(2)
    have "installable_loop pw ps (Some kind) (item # items) nm acc = Inl e"
      by auto
    with e f show ?thesis by (cases "kind = WHEEL") simp_all
  next
    case False
    with Cons.prems(1) item
    have rest: "find (\<lambda>(g, k). k = kind \<and> isl (if kind = WHEEL then pw g else ps g)) items = Some (f, k')"
      by simp
    have "\<exists>nm' acc'. installable_loop pw ps (Some kind) (item # items) nm acc =
            installable_loop pw ps (Some kind) items nm' acc'"
    proof (cases "k = kind")
      case k: True
      with False obtain n where "(if kind = WHEEL then pw g else ps g) = Inr n"
        by (cases "if kind = WHEEL then pw g else ps g") auto
      with k item Cons.prems(2) show ?thesis by (auto split: if_splits)
    next
      case k: False
      with item show ?thesis by auto
    qed
    then obtain nm' acc' where step:
      "installable_loop pw ps (Some kind) (item # items) nm acc =
       installable_loop pw ps (Some kind) items nm' acc'" by blast
    from Cons.IH [OF rest Cons.prems(2), of nm' acc'] obtain e where
      "(if kind = WHEEL then pw f else ps f) = Inl e"
      "installable_loop pw ps (Some kind) items nm' acc' = Inl e" by blast
    with step show ?thesis by (intro exI [of _ e]) simp
  qed
qed

lemma installable_kind_wheel:
  "(artifact, WHEEL) \<in> set bs \<Longrightarrow> installable_kind bs = Some WHEEL"
  by (force simp: installable_kind_def)

lemma installable_kind_sdist:
  "(artifact, SDIST) \<in> set bs \<Longrightarrow> WHEEL \<notin> snd ` set bs \<Longrightarrow> installable_kind bs = Some SDIST"
  by (force simp: installable_kind_def)

text \<open>
  What the loop returns when no parser is called, and that the entry for the sources
  comes first in every list.
\<close>

lemma installable_loop_none:
  "installable_loop pw ps None items nm acc = Inr acc"
  by (induction items arbitrary: nm acc) auto

lemma installable_loop_tree:
  "installable_loop pw ps (Some TREE) items nm acc =
     Inr (acc @ map (\<lambda>(f, k). (f, k, nm)) (filter (\<lambda>(f, k). k = TREE) items))"
  by (induction items arbitrary: acc) auto

lemma installable_loop_first:
  "installable_loop pw ps installable items nm acc = Inr l \<Longrightarrow> take (length acc) l = acc"
proof (induction items arbitrary: nm acc)
  case Nil
  then show ?case by simp
next
  case (Cons item items)
  obtain f k where item: "item = (f, k)" by (cases item)
  from Cons.prems item obtain nm' acc' where
    "installable_loop pw ps installable items nm' acc' = Inr l" "take (length acc) acc' = acc"
    "length acc \<le> length acc'"
    by (auto split: if_splits sum.splits)
  from Cons.IH [OF this(1)] have "take (length acc') l = acc'" .
  then have "take (length acc) (take (length acc') l) = take (length acc) acc'" by simp
  with \<open>length acc \<le> length acc'\<close> \<open>take (length acc) acc' = acc\<close> show ?case
    by (simp add: min_def)
qed

lemma sources_first:
  "get_builds_installable pw ps self = Inr l \<Longrightarrow> take 1 l = [(workdir self, TREE, ''sources'')]"
  using installable_loop_first [of pw ps _ _ _ "[(workdir self, TREE, ''sources'')]" l]
  by (simp add: get_builds_installable_def)

lemma installables_example:
  "get_builds_installable sample_parse_wheel_filename sample_parse_sdist_filename
     (sample_system\<lparr>builds := [(''mypkg-1.0-py3-none-any.whl'', WHEEL), (''bad.tar.gz'', SDIST)]\<rparr>) =
   Inr [(''/home/user/mypkg'', TREE, ''sources''),
        (''mypkg-1.0-py3-none-any.whl'', WHEEL, ''mypkg'')]"
  by (simp add: get_builds_installable_def installable_kind_def sample_parse_wheel_filename_def
      sample_system_def)

text \<open>
  C3, amended. When the parser refuses the name of a registered WHEEL,
  \<^verbatim>\<open>get_builds_installable\<close> returns no list: it raises the exception that
  \<^verbatim>\<open>parse_wheel_filename\<close> raises for the first WHEEL of the register, in its order, whose
  name is refused. When the parser refuses the name of a registered SDIST and no WHEEL
  is registered, it raises in the same way the exception that \<^verbatim>\<open>parse_sdist_filename\<close>
  raises for the first SDIST whose name is refused.
\<close>

theorem invalid_filename_raises:
  "((artifact, WHEEL) \<in> set (builds self) \<and> isl (parse_wheel_filename artifact) \<longrightarrow>
      (\<exists>f e. find (\<lambda>(g, k). k = WHEEL \<and> isl (parse_wheel_filename g)) (builds self) = Some (f, WHEEL) \<and>
         parse_wheel_filename f = Inl e \<and>
         get_builds_installable parse_wheel_filename parse_sdist_filename self = Inl e)) \<and>
   ((artifact, SDIST) \<in> set (builds self) \<and> WHEEL \<notin> snd ` set (builds self) \<and>
      isl (parse_sdist_filename artifact) \<longrightarrow>
      (\<exists>f e. find (\<lambda>(g, k). k = SDIST \<and> isl (parse_sdist_filename g)) (builds self) = Some (f, SDIST) \<and>
         parse_sdist_filename f = Inl e \<and>
         get_builds_installable parse_wheel_filename parse_sdist_filename self = Inl e))"
proof (intro conjI impI; elim conjE)
  assume m: "(artifact, WHEEL) \<in> set (builds self)" and r: "isl (parse_wheel_filename artifact)"
  let ?P = "\<lambda>(g, k). k = WHEEL \<and> isl (parse_wheel_filename g)"
  from m r have "find ?P (builds self) \<noteq> None"
    by (auto simp: find_None_iff)
  then obtain f k where fd: "find ?P (builds self) = Some (f, k)" by auto
  then have k: "k = WHEEL" by (auto simp: find_Some_iff)
  from installable_loop_first_refused [where kind = WHEEL and pw = parse_wheel_filename
      and ps = parse_sdist_filename and items = "builds self" and f = f and k' = k
      and nm = "''Unknown''" and acc = "[(workdir self, TREE, ''sources'')]"] fd
  obtain e where "parse_wheel_filename f = Inl e"
    "installable_loop parse_wheel_filename parse_sdist_filename (Some WHEEL) (builds self)
       ''Unknown'' [(workdir self, TREE, ''sources'')] = Inl e"
    by auto
  with installable_kind_wheel [OF m] fd k
  show "\<exists>f e. find ?P (builds self) = Some (f, WHEEL) \<and> parse_wheel_filename f = Inl e \<and>
          get_builds_installable parse_wheel_filename parse_sdist_filename self = Inl e"
    by (auto simp: get_builds_installable_def)
next
  assume m: "(artifact, SDIST) \<in> set (builds self)" and w: "WHEEL \<notin> snd ` set (builds self)"
    and r: "isl (parse_sdist_filename artifact)"
  let ?P = "\<lambda>(g, k). k = SDIST \<and> isl (parse_sdist_filename g)"
  from m r have "find ?P (builds self) \<noteq> None"
    by (auto simp: find_None_iff)
  then obtain f k where fd: "find ?P (builds self) = Some (f, k)" by auto
  then have k: "k = SDIST" by (auto simp: find_Some_iff)
  from installable_loop_first_refused [where kind = SDIST and pw = parse_wheel_filename
      and ps = parse_sdist_filename and items = "builds self" and f = f and k' = k
      and nm = "''Unknown''" and acc = "[(workdir self, TREE, ''sources'')]"] fd
  obtain e where "parse_sdist_filename f = Inl e"
    "installable_loop parse_wheel_filename parse_sdist_filename (Some SDIST) (builds self)
       ''Unknown'' [(workdir self, TREE, ''sources'')] = Inl e"
    by auto
  with installable_kind_sdist [OF m w] fd k
  show "\<exists>f e. find ?P (builds self) = Some (f, SDIST) \<and> parse_sdist_filename f = Inl e \<and>
          get_builds_installable parse_wheel_filename parse_sdist_filename self = Inl e"
    by (auto simp: get_builds_installable_def)
qed

text \<open>
  A register holding a source archive and then a wheel, both with names the parsers
  refuse: the exception is the one for the wheel. A register holding the source archive
  alone: the exception is the one for the archive.
\<close>

theorem invalid_filename_raises_witness:
  "(''foo.whl'', WHEEL) \<in> set (builds (sample_system\<lparr>builds := [(''bad.tar.gz'', SDIST), (''foo.whl'', WHEEL)]\<rparr>)) \<and>
   isl (sample_parse_wheel_filename ''foo.whl'') \<and>
   get_builds_installable sample_parse_wheel_filename sample_parse_sdist_filename
     (sample_system\<lparr>builds := [(''bad.tar.gz'', SDIST), (''foo.whl'', WHEEL)]\<rparr>) =
     Inl (InvalidWheelFilename ''foo.whl'') \<and>
   (''bad.tar.gz'', SDIST) \<in> set (builds (sample_system\<lparr>builds := [(''bad.tar.gz'', SDIST)]\<rparr>)) \<and>
   WHEEL \<notin> snd ` set (builds (sample_system\<lparr>builds := [(''bad.tar.gz'', SDIST)]\<rparr>)) \<and>
   isl (sample_parse_sdist_filename ''bad.tar.gz'') \<and>
   get_builds_installable sample_parse_wheel_filename sample_parse_sdist_filename
     (sample_system\<lparr>builds := [(''bad.tar.gz'', SDIST)]\<rparr>) = Inl (InvalidSdistFilename ''bad.tar.gz'')"
proof -
  let ?w = "sample_system\<lparr>builds := [(''bad.tar.gz'', SDIST), (''foo.whl'', WHEEL)]\<rparr>"
  let ?s = "sample_system\<lparr>builds := [(''bad.tar.gz'', SDIST)]\<rparr>"
  have hw: "(''foo.whl'', WHEEL) \<in> set (builds ?w) \<and> isl (sample_parse_wheel_filename ''foo.whl'')"
    by (simp add: sample_parse_wheel_filename_def)
  have hs: "(''bad.tar.gz'', SDIST) \<in> set (builds ?s) \<and> WHEEL \<notin> snd ` set (builds ?s) \<and>
           isl (sample_parse_sdist_filename ''bad.tar.gz'')"
    by (simp add: sample_parse_sdist_filename_def)
  note a = invalid_filename_raises [where artifact = "''foo.whl''" and self = ?w
      and parse_wheel_filename = sample_parse_wheel_filename
      and parse_sdist_filename = sample_parse_sdist_filename, THEN conjunct1, rule_format, OF hw]
  note b = invalid_filename_raises [where artifact = "''bad.tar.gz''" and self = ?s
      and parse_wheel_filename = sample_parse_wheel_filename
      and parse_sdist_filename = sample_parse_sdist_filename, THEN conjunct2, rule_format, OF hs]
  from a have "get_builds_installable sample_parse_wheel_filename sample_parse_sdist_filename ?w =
      Inl (InvalidWheelFilename ''foo.whl'')"
    by (auto simp: sample_parse_wheel_filename_def split: if_splits)
  moreover from b have "get_builds_installable sample_parse_wheel_filename sample_parse_sdist_filename ?s =
      Inl (InvalidSdistFilename ''bad.tar.gz'')"
    by (auto simp: sample_parse_sdist_filename_def split: if_splits)
  ultimately show ?thesis using hw hs by simp
qed

text \<open>
  C3 as stated asks for the list with the name \<^verbatim>\<open>Unknown\<close>. The file \<^verbatim>\<open>foo.whl\<close> is
  registered as a WHEEL, its name is refused by the parser, and the operation raises.
\<close>

theorem invalid_wheel_name_counterexample:
  "add_build (sample_system\<lparr>build_backend := Some sample_backend\<rparr>)
       \<lparr>name = ''foo.whl'', is_dir = False\<rparr> =
     Inr (sample_system\<lparr>build_backend := Some sample_backend, builds := [(''foo.whl'', WHEEL)]\<rparr>) \<and>
   sample_parse_wheel_filename ''foo.whl'' = Inl (InvalidWheelFilename ''foo.whl'') \<and>
   get_builds_installable sample_parse_wheel_filename sample_parse_sdist_filename
       (sample_system\<lparr>build_backend := Some sample_backend, builds := [(''foo.whl'', WHEEL)]\<rparr>) =
     Inl (InvalidWheelFilename ''foo.whl'') \<and>
   get_builds_installable sample_parse_wheel_filename sample_parse_sdist_filename
       (sample_system\<lparr>build_backend := Some sample_backend, builds := [(''foo.whl'', WHEEL)]\<rparr>) \<noteq>
     Inr [(''/home/user/mypkg'', TREE, ''sources''), (''foo.whl'', WHEEL, ''Unknown'')]"
proof -
  have s: "suffix ''foo.whl'' = ''.whl''"
    by (simp add: suffix_def)
  show ?thesis
    by (simp add: add_build_def setitem_def s get_builds_installable_def installable_kind_def
        sample_parse_wheel_filename_def sample_backend_def sample_system_def)
qed

end
